theory Spec2Isabelle
  imports Main "HOL-Library.AList"
begin

section \<open>Values shared by the modules\<close>

text \<open>
  Time is counted in whole seconds: a \<open>datetime\<close> is an \<open>int\<close> (seconds since the
  epoch) and a \<open>timedelta\<close> is an \<open>int\<close> number of seconds. Python's \<open>str\<close> and
  \<open>bytes\<close> are both character lists.
\<close>

type_synonym bytes = string

text \<open>
  The exceptions the code raises. All three are subclasses of Python's \<open>Exception\<close>,
  so a clause \<open>except Exception\<close> catches each of them. \<open>OtherError\<close> stands for
  the exceptions of the libraries (\<open>JWTError\<close>, \<open>IntegrityError\<close>, \<open>InvalidToken\<close>, ...).
\<close>

datatype exn =
    HTTPException nat string
  | ValueError string
  | OtherError string

definition HTTP_400_BAD_REQUEST :: nat where "HTTP_400_BAD_REQUEST = 400"
definition HTTP_403_FORBIDDEN :: nat where "HTTP_403_FORBIDDEN = 403"
definition HTTP_404_NOT_FOUND :: nat where "HTTP_404_NOT_FOUND = 404"
definition HTTP_500_INTERNAL_SERVER_ERROR :: nat where "HTTP_500_INTERNAL_SERVER_ERROR = 500"

text \<open>Python truthiness of an \<open>Optional[str]\<close>: \<open>None\<close> and \<open>""\<close> are false.\<close>

definition truthy :: "string option \<Rightarrow> bool" where
  "truthy v = (case v of None \<Rightarrow> False | Some s \<Rightarrow> s \<noteq> [])"

section \<open>Configuration: app/core/config.py\<close>

text \<open>
  \<open>AppMode\<close> has the two members of the source. The third constructor stands for a
  value of \<open>settings.app_mode\<close> that is neither of them: it is what reaches the
  \<open>else\<close> branch of \<open>get_auth_strategy\<close>.
\<close>

datatype AppMode = SINGLE_USER | MULTI_USER | UNKNOWN_MODE string

fun AppMode_str :: "AppMode \<Rightarrow> string" where
  "AppMode_str SINGLE_USER = ''AppMode.SINGLE_USER''"
| "AppMode_str MULTI_USER = ''AppMode.MULTI_USER''"
| "AppMode_str (UNKNOWN_MODE m) = m"

record Settings =
  app_mode :: AppMode
  app_name :: string
  debug :: bool
  database_url :: string
  secret_key :: string
  algorithm :: string
  access_token_expire_minutes :: int
  github_client_id :: "string option"
  github_client_secret :: "string option"
  github_redirect_uri :: string
  enable_su_auth :: bool
  su_github_username :: "string option"
  default_github_token :: "string option"
  mu_admin_github_username :: "string option"

definition requires_auth :: "Settings \<Rightarrow> bool" where
  "requires_auth s =
     (app_mode s = MULTI_USER \<or> (app_mode s = SINGLE_USER \<and> enable_su_auth s))"

section \<open>User records and the database session: app/models/user.py\<close>

record User =
  uid :: int
  username :: "string option"
  email :: "string option"
  github_id :: "int option"
  github_username :: "string option"
  github_avatar_url :: "string option"
  github_token :: "string option"
  is_admin :: bool
  is_active :: bool
  organization_id :: "int option"
  created_at :: "int option"
  updated_at :: "int option"
  last_login :: "int option"

text \<open>
  The SQLAlchemy session is the table of users together with the log of the calls made
  on the session, so that "no database operation" is a statement about the log.
\<close>

datatype db_call = Query | Add | Commit | Refresh

record Session =
  rows :: "User list"
  calls :: "db_call list"

record Request =
  headers :: "(string \<times> string) list"
  cookies :: "(string \<times> string) list"

section \<open>Strategy selection: app/core/auth/dependencies.py\<close>

text \<open>
  A strategy object holds the session it was built with; the model passes the session
  to \<open>authenticate\<close> instead, so the three classes are three constants.
\<close>

datatype AuthStrategy = NoAuthStrategy | GitHubSUStrategy | GitHubMUStrategy

definition get_auth_strategy :: "Settings \<Rightarrow> exn + AuthStrategy" where
  "get_auth_strategy s =
     (if app_mode s = SINGLE_USER then
        (if enable_su_auth s then Inr GitHubSUStrategy else Inr NoAuthStrategy)
      else if app_mode s = MULTI_USER then Inr GitHubMUStrategy
      else Inl (ValueError (''Unknown app mode: '' @ AppMode_str (app_mode s))))"

section \<open>The NoAuth strategy: app/core/auth/strategies/no_auth.py\<close>

text \<open>
  \<open>User()\<close> leaves every column unset; the method then assigns the fields below.
  \<open>now\<close> is what \<open>datetime.utcnow()\<close> returns.
\<close>

definition NoAuth_authenticate ::
  "int \<Rightarrow> Request \<Rightarrow> Session \<Rightarrow> (exn + User option) \<times> Session" where
  "NoAuth_authenticate now request db =
     (Inr (Some \<lparr> uid = 1, username = Some ''single_user'', email = Some ''user@localhost'',
                  github_id = None, github_username = None, github_avatar_url = None,
                  github_token = None, is_admin = True, is_active = True,
                  organization_id = None, created_at = Some now, updated_at = Some now,
                  last_login = None \<rparr>), db)"

definition NoAuth_get_login_url :: "Settings \<Rightarrow> string option" where
  "NoAuth_get_login_url s = None"

definition NoAuth_requires_auth :: bool where
  "NoAuth_requires_auth = False"

section \<open>Token codec: app/core/security.py\<close>

text \<open>
  A claims dictionary is an association list (Python dictionaries keep insertion order;
  \<open>AList.update\<close> overwrites a key in place and appends a new one, as \<open>dict.update\<close>
  does). Claim values are JSON values.
\<close>

datatype jval = JStr string | JInt int | JNull

type_synonym claims = "(string \<times> jval) list"

definition dict_get :: "claims \<Rightarrow> string \<Rightarrow> jval" where
  "dict_get d k = (case map_of d k of None \<Rightarrow> JNull | Some v \<Rightarrow> v)"

text \<open>Python truthiness of the result of \<open>payload.get(key)\<close>.\<close>

fun jtruthy :: "jval option \<Rightarrow> bool" where
  "jtruthy None = False"
| "jtruthy (Some JNull) = False"
| "jtruthy (Some (JStr s)) = (s \<noteq> [])"
| "jtruthy (Some (JInt n)) = (n \<noteq> 0)"

text \<open>
  The signing library (\<open>jose.jwt\<close>) is not part of the repository: its two entry points
  are parameters of the model. \<open>jwt_encode claims key algorithm\<close> is \<open>jwt.encode\<close>;
  \<open>jwt_decode token key algorithms now\<close> is \<open>jwt.decode\<close> run at time \<open>now\<close>, with
  \<open>Inl\<close> for a raised \<open>JWTError\<close>. The type of tokens is the library's.
\<close>

record 'tok jwt_lib =
  jwt_encode :: "claims \<Rightarrow> string \<Rightarrow> string \<Rightarrow> 'tok"
  jwt_decode :: "'tok \<Rightarrow> string \<Rightarrow> string list \<Rightarrow> int \<Rightarrow> string + claims"

text \<open>\<open>timedelta(minutes=m)\<close> in seconds.\<close>

definition timedelta_minutes :: "int \<Rightarrow> int" where
  "timedelta_minutes m = 60 * m"

text \<open>
  \<open>if expires_delta:\<close> is a truthiness test: \<open>None\<close> and \<open>timedelta(0)\<close> both take
  the \<open>else\<close> branch.
\<close>

definition expire_at :: "Settings \<Rightarrow> int \<Rightarrow> int option \<Rightarrow> int" where
  "expire_at s now expires_delta =
     (case expires_delta of
        Some d \<Rightarrow> if d \<noteq> 0 then now + d
                  else now + timedelta_minutes (access_token_expire_minutes s)
      | None \<Rightarrow> now + timedelta_minutes (access_token_expire_minutes s))"

definition create_access_token ::
  "'tok jwt_lib \<Rightarrow> Settings \<Rightarrow> int \<Rightarrow> claims \<Rightarrow> int option \<Rightarrow> 'tok" where
  "create_access_token L s now data expires_delta =
     (let to_encode = data;
          expire = expire_at s now expires_delta;
          to_encode = AList.update ''exp'' (JInt expire) to_encode
      in jwt_encode L to_encode (secret_key s) (algorithm s))"

definition decode_access_token ::
  "'tok jwt_lib \<Rightarrow> Settings \<Rightarrow> int \<Rightarrow> 'tok \<Rightarrow> exn + claims" where
  "decode_access_token L s now token =
     (case jwt_decode L token (secret_key s) [algorithm s] now of
        Inr payload \<Rightarrow> Inr payload
      | Inl e \<Rightarrow> Inl (ValueError ''Invalid token''))"

text \<open>
  \<open>github_user_data["login"]\<close> and \<open>["id"]\<close> raise \<open>KeyError\<close> on a missing key;
  \<open>.get\<close> gives \<open>None\<close>.
\<close>

definition create_github_oauth_token ::
  "'tok jwt_lib \<Rightarrow> Settings \<Rightarrow> int \<Rightarrow> claims \<Rightarrow> string \<Rightarrow> exn + 'tok" where
  "create_github_oauth_token L s now github_user_data access_token =
     (case map_of github_user_data ''login'' of
        None \<Rightarrow> Inl (OtherError ''KeyError: login'')
      | Some login \<Rightarrow>
          (case map_of github_user_data ''id'' of
             None \<Rightarrow> Inl (OtherError ''KeyError: id'')
           | Some gid \<Rightarrow>
               (let token_data =
                      [(''sub'', login),
                       (''github_id'', gid),
                       (''email'', dict_get github_user_data ''email''),
                       (''avatar_url'', dict_get github_user_data ''avatar_url''),
                       (''github_token'', JStr access_token),
                       (''type'', JStr ''github_oauth'')]
                in Inr (create_access_token L s now token_data None))))"

section \<open>Credential vault: app/core/security.py\<close>

text \<open>
  \<open>cryptography.fernet\<close>, \<open>base64\<close> and the UTF-8 codec are libraries: parameters again.
  \<open>generate_key n\<close> is \<open>Fernet.generate_key().decode()\<close> and \<open>fernet_encrypt key n p\<close>
  is \<open>Fernet(key).encrypt(p)\<close>, where \<open>n\<close> is the randomness they draw;
  \<open>key_ok key\<close> says that \<open>Fernet(key)\<close> accepts the key (it raises \<open>ValueError\<close>
  otherwise); \<open>None\<close> is a raised exception.
\<close>

record vault_lib =
  generate_key :: "nat \<Rightarrow> string"
  key_ok :: "bytes \<Rightarrow> bool"
  fernet_encrypt :: "bytes \<Rightarrow> nat \<Rightarrow> bytes \<Rightarrow> bytes"
  fernet_decrypt :: "bytes \<Rightarrow> bytes \<Rightarrow> bytes option"
  b64encode :: "bytes \<Rightarrow> bytes"
  b64decode :: "bytes \<Rightarrow> bytes option"
  str_encode :: "string \<Rightarrow> bytes"
  bytes_decode :: "bytes \<Rightarrow> string option"

text \<open>\<open>os.environ\<close>, which \<open>get_encryption_key\<close> reads and writes.\<close>

type_synonym environ = "string \<rightharpoonup> string"

definition get_encryption_key :: "vault_lib \<Rightarrow> nat \<Rightarrow> environ \<Rightarrow> bytes \<times> environ" where
  "get_encryption_key V rnd env =
     (let key = env ''ENCRYPTION_KEY'' in
      if \<not> truthy key then
        (let key = generate_key V rnd
         in (str_encode V key, env(''ENCRYPTION_KEY'' \<mapsto> key)))
      else (case key of Some k \<Rightarrow> (str_encode V k, env)
                      | None \<Rightarrow> (str_encode V [], env)))"

definition encrypt_token ::
  "vault_lib \<Rightarrow> nat \<Rightarrow> string \<Rightarrow> environ \<Rightarrow> (exn + string) \<times> environ" where
  "encrypt_token V rnd token env =
     (if token = [] then (Inr [], env)
      else
        (case get_encryption_key V rnd env of
           (key, env1) \<Rightarrow>
             if \<not> key_ok V key then (Inl (ValueError ''Fernet key must be 32 url-safe base64-encoded bytes.''), env1)
             else
               (let encrypted_token = fernet_encrypt V key rnd (str_encode V token)
                in case bytes_decode V (b64encode V encrypted_token) of
                     None \<Rightarrow> (Inl (OtherError ''UnicodeDecodeError''), env1)
                   | Some c \<Rightarrow> (Inr c, env1))))"

text \<open>The body of the \<open>try\<close> block of \<open>decrypt_token\<close>.\<close>

definition decrypt_token_try ::
  "vault_lib \<Rightarrow> nat \<Rightarrow> string \<Rightarrow> environ \<Rightarrow> (exn + string) \<times> environ" where
  "decrypt_token_try V rnd encrypted_token env =
     (case get_encryption_key V rnd env of
        (key, env1) \<Rightarrow>
          if \<not> key_ok V key then (Inl (ValueError ''Fernet key must be 32 url-safe base64-encoded bytes.''), env1)
          else
            (case b64decode V (str_encode V encrypted_token) of
               None \<Rightarrow> (Inl (OtherError ''binascii.Error''), env1)
             | Some encrypted_bytes \<Rightarrow>
                 (case fernet_decrypt V key encrypted_bytes of
                    None \<Rightarrow> (Inl (OtherError ''InvalidToken''), env1)
                  | Some decrypted_token \<Rightarrow>
                      (case bytes_decode V decrypted_token of
                         None \<Rightarrow> (Inl (OtherError ''UnicodeDecodeError''), env1)
                       | Some p \<Rightarrow> (Inr p, env1)))))"

definition decrypt_token ::
  "vault_lib \<Rightarrow> nat \<Rightarrow> string \<Rightarrow> environ \<Rightarrow> (exn + string) \<times> environ" where
  "decrypt_token V rnd encrypted_token env =
     (if encrypted_token = [] then (Inr [], env)
      else
        (case decrypt_token_try V rnd encrypted_token env of
           (Inr p, env1) \<Rightarrow> (Inr p, env1)
         | (Inl e, env1) \<Rightarrow> (Inr [], env1)))"

section \<open>The OAuth strategies: app/core/auth/strategies/github_su.py, github_mu.py\<close>

text \<open>\<open>s.split(" ")\<close>: the pieces between single spaces (never an empty list).\<close>

fun split_on :: "char \<Rightarrow> string \<Rightarrow> string list" where
  "split_on c [] = [[]]"
| "split_on c (x # xs) =
     (if x = c then [] # split_on c xs
      else (case split_on c xs of w # ws \<Rightarrow> (x # w) # ws | [] \<Rightarrow> [[x]]))"

text \<open>
  Both strategies start with the same lines: the token is the second piece of an
  \<open>Authorization\<close> header that starts with \<open>Bearer \<close> (such a header has at least two
  pieces), else the \<open>access_token\<close> cookie; an empty token is no token.
\<close>

definition extract_token :: "Request \<Rightarrow> string option" where
  "extract_token request =
     (let auth_header = map_of (headers request) ''Authorization'';
          token =
            (case auth_header of
               Some h \<Rightarrow>
                 if h \<noteq> [] \<and> take 7 h = ''Bearer '' then
                   (case split_on CHR '' '' h of _ # t # _ \<Rightarrow> Some t | _ \<Rightarrow> None)
                 else None
             | None \<Rightarrow> None);
          token = (if \<not> truthy token then map_of (cookies request) ''access_token'' else token)
      in if \<not> truthy token then None else token)"

text \<open>\<open>db.query(User).filter(User.github_username == name).first()\<close>\<close>

definition query_by_github_username :: "Session \<Rightarrow> string \<Rightarrow> User option \<times> Session" where
  "query_by_github_username db name =
     (find (\<lambda>r. github_username r = Some name) (rows db), db\<lparr>calls := calls db @ [Query]\<rparr>)"

text \<open>\<open>db.query(User).filter(User.id == user_id).first()\<close>\<close>

definition query_by_id :: "Session \<Rightarrow> int \<Rightarrow> User option \<times> Session" where
  "query_by_id db i =
     (find (\<lambda>r. uid r = i) (rows db), db\<lparr>calls := calls db @ [Query]\<rparr>)"

text \<open>
  The columns \<open>username\<close>, \<open>email\<close>, \<open>github_id\<close> and \<open>github_username\<close> are declared
  \<open>unique=True\<close>: a commit that would repeat a value that is not NULL raises
  \<open>IntegrityError\<close>.
\<close>

definition clash :: "'a option \<Rightarrow> 'a option \<Rightarrow> bool" where
  "clash a b = (a \<noteq> None \<and> a = b)"

definition unique_violation :: "User list \<Rightarrow> User \<Rightarrow> bool" where
  "unique_violation rs u =
     list_ex (\<lambda>r. clash (username r) (username u) \<or> clash (email r) (email u)
                \<or> clash (github_id r) (github_id u)
                \<or> clash (github_username r) (github_username u)) rs"

definition next_id :: "User list \<Rightarrow> int" where
  "next_id rs = fold max (map uid rs) 0 + 1"

text \<open>
  \<open>db.add(user); db.commit(); db.refresh(user)\<close> for a new user: the row gets its
  primary key and \<open>created_at\<close> (\<open>server_default=func.now()\<close>).
\<close>

definition add_commit_refresh :: "int \<Rightarrow> Session \<Rightarrow> User \<Rightarrow> (exn + User) \<times> Session" where
  "add_commit_refresh now db user =
     (if unique_violation (rows db) user then
        (Inl (OtherError ''IntegrityError''), db\<lparr>calls := calls db @ [Add, Commit]\<rparr>)
      else
        (let user = user\<lparr>uid := next_id (rows db), created_at := Some now\<rparr>
         in (Inr user, \<lparr>rows = rows db @ [user], calls = calls db @ [Add, Commit, Refresh]\<rparr>)))"

text \<open>\<open>User(username=..., github_username=..., github_id=..., is_admin=..., is_active=True)\<close>\<close>

definition new_User :: "string \<Rightarrow> int option \<Rightarrow> bool \<Rightarrow> User" where
  "new_User name gid adm =
     \<lparr> uid = 0, username = Some name, email = None, github_id = gid,
       github_username = Some name, github_avatar_url = None, github_token = None,
       is_admin = adm, is_active = True, organization_id = None, created_at = None,
       updated_at = None, last_login = None \<rparr>"

definition opt_str :: "string option \<Rightarrow> string" where
  "opt_str v = (case v of None \<Rightarrow> ''None'' | Some s \<Rightarrow> s)"

text \<open>
  The body of the \<open>try\<close> block of \<open>GitHubSUStrategy.authenticate\<close>. The library only
  returns a payload whose \<open>sub\<close> is a string; another truthy value differs from the
  configured name and takes the 403 branch.
\<close>

definition GitHubSU_authenticate_try ::
  "string jwt_lib \<Rightarrow> Settings \<Rightarrow> int \<Rightarrow> string \<Rightarrow> Session \<Rightarrow> (exn + User option) \<times> Session" where
  "GitHubSU_authenticate_try L s now token db =
     (case decode_access_token L s now token of
        Inl e \<Rightarrow> (Inl e, db)
      | Inr payload \<Rightarrow>
          (let username = map_of payload ''sub'' in
           if \<not> jtruthy username then (Inr None, db)
           else
             (case username of
                Some (JStr name) \<Rightarrow>
                  if Some name \<noteq> su_github_username s then
                    (Inl (HTTPException HTTP_403_FORBIDDEN
                       (''Access denied. Only '' @ opt_str (su_github_username s) @ '' is allowed.'')), db)
                  else
                    (case query_by_github_username db name of
                       (Some user, db1) \<Rightarrow> (Inr (Some user), db1)
                     | (None, db1) \<Rightarrow>
                         (case add_commit_refresh now db1 (new_User name None True) of
                            (Inl e, db2) \<Rightarrow> (Inl e, db2)
                          | (Inr user, db2) \<Rightarrow> (Inr (Some user), db2)))
              | _ \<Rightarrow>
                  (Inl (HTTPException HTTP_403_FORBIDDEN
                     (''Access denied. Only '' @ opt_str (su_github_username s) @ '' is allowed.'')), db))))"

text \<open>
  \<open>try: ... except Exception: return None\<close>: every exception of the body, the
  \<open>HTTPException\<close> included, becomes the result \<open>None\<close>.
\<close>

definition GitHubSU_authenticate ::
  "string jwt_lib \<Rightarrow> Settings \<Rightarrow> int \<Rightarrow> Request \<Rightarrow> Session \<Rightarrow> (exn + User option) \<times> Session" where
  "GitHubSU_authenticate L s now request db =
     (case extract_token request of
        None \<Rightarrow> (Inr None, db)
      | Some token \<Rightarrow>
          (case GitHubSU_authenticate_try L s now token db of
             (Inr r, db1) \<Rightarrow> (Inr r, db1)
           | (Inl e, db1) \<Rightarrow> (Inr None, db1)))"

text \<open>
  The body of the \<open>try\<close> block of \<open>GitHubMUStrategy.authenticate\<close>. A truthy \<open>sub\<close>
  that is not a string (the library returns none) matches no row and cannot be stored
  in the string column: an exception other than \<open>HTTPException\<close>.
\<close>

definition GitHubMU_authenticate_try ::
  "string jwt_lib \<Rightarrow> Settings \<Rightarrow> int \<Rightarrow> string \<Rightarrow> Session \<Rightarrow> (exn + User option) \<times> Session" where
  "GitHubMU_authenticate_try L s now token db =
     (case decode_access_token L s now token of
        Inl e \<Rightarrow> (Inl e, db)
      | Inr payload \<Rightarrow>
          (let username = map_of payload ''sub'';
               github_id = (case map_of payload ''github_id'' of Some (JInt g) \<Rightarrow> Some g | _ \<Rightarrow> None)
           in
           if \<not> jtruthy username then (Inr None, db)
           else
             (case username of
                Some (JStr name) \<Rightarrow>
                  (let found = query_by_github_username db name;
                       created =
                         (case found of
                            (Some user, db1) \<Rightarrow> (Inr user, db1)
                          | (None, db1) \<Rightarrow>
                              (let is_admin = (Some name = mu_admin_github_username s)
                               in add_commit_refresh now db1 (new_User name github_id is_admin)))
                   in case created of
                        (Inl e, db2) \<Rightarrow> (Inl e, db2)
                      | (Inr user, db2) \<Rightarrow>
                          if \<not> is_active user then
                            (Inl (HTTPException HTTP_403_FORBIDDEN
                               ''Account is deactivated. Contact administrator.''), db2)
                          else (Inr (Some user), db2))
              | _ \<Rightarrow> (Inl (OtherError ''sub is not a string''), db))))"

text \<open>
  \<open>except HTTPException: raise\<close> comes first, then \<open>except Exception: return None\<close>.
\<close>

definition GitHubMU_authenticate ::
  "string jwt_lib \<Rightarrow> Settings \<Rightarrow> int \<Rightarrow> Request \<Rightarrow> Session \<Rightarrow> (exn + User option) \<times> Session" where
  "GitHubMU_authenticate L s now request db =
     (case extract_token request of
        None \<Rightarrow> (Inr None, db)
      | Some token \<Rightarrow>
          (case GitHubMU_authenticate_try L s now token db of
             (Inr r, db1) \<Rightarrow> (Inr r, db1)
           | (Inl (HTTPException c d), db1) \<Rightarrow> (Inl (HTTPException c d), db1)
           | (Inl e, db1) \<Rightarrow> (Inr None, db1)))"

text \<open>The method \<open>authenticate\<close> of the strategy that was selected.\<close>

fun authenticate ::
  "AuthStrategy \<Rightarrow> string jwt_lib \<Rightarrow> Settings \<Rightarrow> int \<Rightarrow> Request \<Rightarrow> Session
     \<Rightarrow> (exn + User option) \<times> Session" where
  "authenticate NoAuthStrategy L s now request db = NoAuth_authenticate now request db"
| "authenticate GitHubSUStrategy L s now request db = GitHubSU_authenticate L s now request db"
| "authenticate GitHubMUStrategy L s now request db = GitHubMU_authenticate L s now request db"

section \<open>Credential resolver: get_github_token in app/core/auth/dependencies.py\<close>

text \<open>
  \<open>current_user\<close> is what the dependency \<open>get_current_user\<close> resolved to. An exception
  of \<open>decrypt_token\<close> would leave the function; it has none to give.
\<close>

definition stored_token :: "User option \<Rightarrow> string option" where
  "stored_token current_user =
     (case current_user of None \<Rightarrow> None | Some u \<Rightarrow> github_token u)"

definition get_github_token ::
  "vault_lib \<Rightarrow> nat \<Rightarrow> Settings \<Rightarrow> Request \<Rightarrow> User option \<Rightarrow> environ
     \<Rightarrow> (exn + string option) \<times> environ" where
  "get_github_token V rnd s request current_user env =
     (if app_mode s = SINGLE_USER \<and> \<not> enable_su_auth s \<and> truthy (default_github_token s)
      then (Inr (default_github_token s), env)
      else if truthy (stored_token current_user) then
        (case decrypt_token V rnd (opt_str (stored_token current_user)) env of
           (Inr p, env1) \<Rightarrow> (Inr (Some p), env1)
         | (Inl e, env1) \<Rightarrow> (Inl e, env1))
      else
        (let auth_header = map_of (headers request) ''X-GitHub-Token''
         in if truthy auth_header then (Inr auth_header, env) else (Inr None, env)))"

section \<open>Validation of the settings: class Settings in app/core/config.py\<close>

text \<open>
  A settings value as the validators see it, and \<open>info.data\<close>: the dictionary of the
  fields validated so far.
\<close>

datatype cval = CMode AppMode | CBool bool | CStr string | CInt int | CNone

type_synonym info_data = "(string \<times> cval) list"

fun ctruthy :: "cval \<Rightarrow> bool" where
  "ctruthy CNone = False"
| "ctruthy (CBool b) = b"
| "ctruthy (CStr s) = (s \<noteq> [])"
| "ctruthy (CInt n) = (n \<noteq> 0)"
| "ctruthy (CMode m) = True"

definition data_get :: "info_data \<Rightarrow> string \<Rightarrow> cval \<Rightarrow> cval" where
  "data_get d k dflt = (case map_of d k of None \<Rightarrow> dflt | Some v \<Rightarrow> v)"

text \<open>
  The text of \<open>info.data.get('app_mode')\<close> inside the f-string of the error: the
  dictionary holds a mode under this key, or nothing. The text of a mode depends on the
  Python version (the member's name since 3.11, its value before); the model takes the
  name.
\<close>

fun mode_text :: "cval \<Rightarrow> string" where
  "mode_text (CMode m) = AppMode_str m"
| "mode_text v = ''None''"

definition validate_github_oauth :: "cval \<Rightarrow> info_data \<Rightarrow> exn + cval" where
  "validate_github_oauth v data =
     (if data \<noteq> [] then
        (let app_mode = data_get data ''app_mode'' CNone;
             enable_su_auth = data_get data ''enable_su_auth'' (CBool False)
         in if app_mode = CMode MULTI_USER \<or> ctruthy enable_su_auth then
              (if \<not> ctruthy v then
                 Inl (ValueError (''GitHub OAuth credentials required for mode: '' @ mode_text app_mode
                        @ '' or when SU auth is enabled''))
               else Inr v)
            else Inr v)
      else Inr v)"

definition validate_su_username :: "cval \<Rightarrow> info_data \<Rightarrow> exn + cval" where
  "validate_su_username v data =
     (if data \<noteq> [] \<and> ctruthy (data_get data ''enable_su_auth'' CNone) \<and> \<not> ctruthy v then
        Inl (ValueError ''SU GitHub username required when SU auth is enabled'')
      else Inr v)"

definition validate_mu_admin :: "cval \<Rightarrow> info_data \<Rightarrow> exn + cval" where
  "validate_mu_admin v data =
     (if data \<noteq> [] \<and> data_get data ''app_mode'' CNone = CMode MULTI_USER \<and> \<not> ctruthy v then
        Inl (ValueError ''MU admin GitHub username required for multi-user mode'')
      else Inr v)"

text \<open>
  The fields of the class in the order of their declaration, each with its default and
  the \<open>field_validator\<close> attached to it.
\<close>

datatype validator = No_validator | Github_oauth | Su_username | Mu_admin

fun run_validator :: "validator \<Rightarrow> cval \<Rightarrow> info_data \<Rightarrow> exn + cval" where
  "run_validator No_validator v data = Inr v"
| "run_validator Github_oauth v data = validate_github_oauth v data"
| "run_validator Su_username v data = validate_su_username v data"
| "run_validator Mu_admin v data = validate_mu_admin v data"

definition Settings_fields :: "(string \<times> cval \<times> validator) list" where
  "Settings_fields =
     [(''app_mode'', CMode SINGLE_USER, No_validator),
      (''app_name'', CStr ''FastAPI Multi-Mode App'', No_validator),
      (''debug'', CBool False, No_validator),
      (''database_url'', CStr ''sqlite:///./app.db'', No_validator),
      (''secret_key'', CStr ''your-secret-key-change-this-in-production'', No_validator),
      (''algorithm'', CStr ''HS256'', No_validator),
      (''access_token_expire_minutes'', CInt 30, No_validator),
      (''github_client_id'', CNone, Github_oauth),
      (''github_client_secret'', CNone, Github_oauth),
      (''github_redirect_uri'', CStr ''http://localhost:8000/auth/github/callback'', No_validator),
      (''enable_su_auth'', CBool False, No_validator),
      (''su_github_username'', CNone, Su_username),
      (''default_github_token'', CNone, No_validator),
      (''mu_admin_github_username'', CNone, Mu_admin)]"

text \<open>
  How the settings library (pydantic-settings, \<open>BaseSettings\<close>) runs the class: the
  fields are taken in the order of their declaration; the value of a field is what the
  environment gives, else its default; the validator of the field runs on that value in
  both cases (\<open>BaseSettings\<close> sets \<open>validate_default\<close>), together with the fields
  before it as \<open>info.data\<close>. The first exception is the outcome here; the library goes
  on and reports them all, and the construction fails just the same. \<open>given\<close> holds
  the values of the environment, already of the field's type.
\<close>

fun validate_fields ::
  "(string \<times> cval \<times> validator) list \<Rightarrow> info_data \<Rightarrow> info_data \<Rightarrow> exn + info_data" where
  "validate_fields [] given data = Inr data"
| "validate_fields ((name, dflt, vd) # fs) given data =
     (case run_validator vd (data_get given name dflt) data of
        Inl e \<Rightarrow> Inl e
      | Inr v' \<Rightarrow> validate_fields fs given (data @ [(name, v')]))"

definition cstr :: "cval \<Rightarrow> string" where
  "cstr v = (case v of CStr x \<Rightarrow> x | _ \<Rightarrow> [])"

definition cstr_opt :: "cval \<Rightarrow> string option" where
  "cstr_opt v = (case v of CStr x \<Rightarrow> Some x | _ \<Rightarrow> None)"

definition cbool :: "cval \<Rightarrow> bool" where
  "cbool v = (case v of CBool b \<Rightarrow> b | _ \<Rightarrow> False)"

definition Settings_of :: "info_data \<Rightarrow> Settings" where
  "Settings_of d =
     \<lparr> app_mode = (case data_get d ''app_mode'' CNone of CMode m \<Rightarrow> m | _ \<Rightarrow> SINGLE_USER),
       app_name = cstr (data_get d ''app_name'' CNone),
       debug = cbool (data_get d ''debug'' CNone),
       database_url = cstr (data_get d ''database_url'' CNone),
       secret_key = cstr (data_get d ''secret_key'' CNone),
       algorithm = cstr (data_get d ''algorithm'' CNone),
       access_token_expire_minutes =
         (case data_get d ''access_token_expire_minutes'' CNone of CInt n \<Rightarrow> n | _ \<Rightarrow> 30),
       github_client_id = cstr_opt (data_get d ''github_client_id'' CNone),
       github_client_secret = cstr_opt (data_get d ''github_client_secret'' CNone),
       github_redirect_uri = cstr (data_get d ''github_redirect_uri'' CNone),
       enable_su_auth = cbool (data_get d ''enable_su_auth'' CNone),
       su_github_username = cstr_opt (data_get d ''su_github_username'' CNone),
       default_github_token = cstr_opt (data_get d ''default_github_token'' CNone),
       mu_admin_github_username = cstr_opt (data_get d ''mu_admin_github_username'' CNone) \<rparr>"

text \<open>\<open>settings = Settings()\<close>, run when the module is imported.\<close>

definition Settings_init :: "info_data \<Rightarrow> exn + Settings" where
  "Settings_init given =
     (case validate_fields Settings_fields given [] of
        Inl e \<Rightarrow> Inl e
      | Inr d \<Rightarrow> Inr (Settings_of d))"

section \<open>The login endpoint: login in app/api/v1/auth.py\<close>

definition login :: "Settings \<Rightarrow> exn + string \<times> AppMode" where
  "login s =
     (if \<not> requires_auth s then
        Inl (HTTPException HTTP_400_BAD_REQUEST ''Authentication not required in current mode'')
      else if \<not> truthy (github_client_id s) then
        Inl (HTTPException HTTP_500_INTERNAL_SERVER_ERROR ''GitHub OAuth not configured'')
      else
        Inr (''https://github.com/login/oauth/authorize?client_id='' @ opt_str (github_client_id s)
               @ ''&redirect_uri='' @ github_redirect_uri s
               @ ''&scope=user:email,repo&state='' @ AppMode_str (app_mode s),
             app_mode s))"

section \<open>User administration: app/api/v1/users.py\<close>

text \<open>
  The handlers run after their dependencies (\<open>require_mu_mode\<close>, \<open>require_admin\<close>,
  \<open>get_db\<close>) were resolved: \<open>current_user\<close> and \<open>db\<close> are what these gave.
  Assigning to a row and committing replaces the row in the table.
\<close>

definition store_row :: "Session \<Rightarrow> User \<Rightarrow> Session" where
  "store_row db user =
     \<lparr> rows = map (\<lambda>r. if uid r = uid user then user else r) (rows db),
       calls = calls db @ [Commit] \<rparr>"

definition deactivate_user ::
  "int \<Rightarrow> int \<Rightarrow> User \<Rightarrow> Session \<Rightarrow> (exn + string) \<times> Session" where
  "deactivate_user now user_id current_user db =
     (if uid current_user = user_id then
        (Inl (HTTPException HTTP_400_BAD_REQUEST ''Cannot deactivate your own account''), db)
      else
        (case query_by_id db user_id of
           (None, db1) \<Rightarrow> (Inl (HTTPException HTTP_404_NOT_FOUND ''User not found''), db1)
         | (Some user, db1) \<Rightarrow>
             (let user = user\<lparr>is_active := False, updated_at := Some now\<rparr>
              in (Inr (''User '' @ opt_str (username user) @ '' deactivated successfully''),
                  store_row db1 user))))"

definition remove_admin ::
  "int \<Rightarrow> int \<Rightarrow> User \<Rightarrow> Session \<Rightarrow> (exn + string) \<times> Session" where
  "remove_admin now user_id current_user db =
     (if uid current_user = user_id then
        (Inl (HTTPException HTTP_400_BAD_REQUEST
           ''Cannot remove admin privileges from your own account''), db)
      else
        (case query_by_id db user_id of
           (None, db1) \<Rightarrow> (Inl (HTTPException HTTP_404_NOT_FOUND ''User not found''), db1)
         | (Some user, db1) \<Rightarrow>
             if \<not> is_admin user then
               (Inl (HTTPException HTTP_400_BAD_REQUEST ''User is not an admin''), db1)
             else
               (let user = user\<lparr>is_admin := False, updated_at := Some now\<rparr>
                in (Inr (''Admin privileges removed from user '' @ opt_str (username user)),
                    store_row db1 user))))"

section \<open>The contracts of the libraries\<close>

definition claims_exp :: "claims \<Rightarrow> int option" where
  "claims_exp c = (case map_of c ''exp'' of Some (JInt e) \<Rightarrow> Some e | _ \<Rightarrow> None)"

text \<open>What the contract calls a valid presentation of a token: the key it was signed with,
  an algorithm that is allowed, and a time before its expiry.\<close>

definition jwt_valid :: "string \<Rightarrow> string \<Rightarrow> string \<Rightarrow> string list \<Rightarrow> claims \<Rightarrow> int \<Rightarrow> bool" where
  "jwt_valid k a k' algs c now =
     (k' = k \<and> List.member algs a \<and> (case claims_exp c of None \<Rightarrow> True | Some e \<Rightarrow> now < e))"

text \<open>
  Modelled from the spec: the signing library \<open>jose.jwt\<close>, which is not in the
  repository. Section 4.1 of the specification gives its contract: \<open>validate\<close> returns
  the claims that were issued, and fails on a bad signature, on a malformed structure
  (a token that no \<open>issue\<close> produced), or when \<open>now >= exp\<close>.
\<close>

definition jwt_contract :: "'tok jwt_lib \<Rightarrow> bool" where
  "jwt_contract L \<longleftrightarrow>
     (\<forall>c k a k' algs now.
        (jwt_valid k a k' algs c now \<longrightarrow>
           jwt_decode L (jwt_encode L c k a) k' algs now = Inr c)
        \<and> (\<not> jwt_valid k a k' algs c now \<longrightarrow>
             isl (jwt_decode L (jwt_encode L c k a) k' algs now)))
     \<and> (\<forall>tok k' algs now.
          (\<forall>c k a. tok \<noteq> jwt_encode L c k a) \<longrightarrow> isl (jwt_decode L tok k' algs now))"

text \<open>
  Modelled from the spec: \<open>cryptography.fernet\<close>, \<open>base64\<close> and the UTF-8 codec, which
  are not in the repository. Section 4.2: what \<open>seal\<close> produced under a key, \<open>open\<close>
  gives back under the same key. Base64 text decodes to what was encoded, is ASCII, and
  the text of a Fernet token is never empty; \<open>str.encode\<close> and \<open>bytes.decode\<close> are
  inverse to each other; a generated key is a key that \<open>Fernet\<close> accepts.
\<close>

definition vault_contract :: "vault_lib \<Rightarrow> bool" where
  "vault_contract V \<longleftrightarrow>
     (\<forall>k n p. key_ok V k \<longrightarrow> fernet_decrypt V k (fernet_encrypt V k n p) = Some p)
     \<and> (\<forall>b. b64decode V (b64encode V b) = Some b)
     \<and> (\<forall>k n p. b64encode V (fernet_encrypt V k n p) \<noteq> [])
     \<and> (\<forall>b. bytes_decode V (b64encode V b) \<noteq> None)
     \<and> (\<forall>s. bytes_decode V (str_encode V s) = Some s)
     \<and> (\<forall>b s. bytes_decode V b = Some s \<longrightarrow> str_encode V s = b)
     \<and> str_encode V [] = []
     \<and> (\<forall>n. generate_key V n \<noteq> [] \<and> key_ok V (str_encode V (generate_key V n)))"

text \<open>
  The key is stable: if the environment holds a key, \<open>Fernet\<close> accepts it (when it
  holds none, the first call generates one and stores it).
\<close>

definition stable_key :: "vault_lib \<Rightarrow> environ \<Rightarrow> bool" where
  "stable_key V env =
     (case env ''ENCRYPTION_KEY'' of
        None \<Rightarrow> True
      | Some k \<Rightarrow> k = [] \<or> key_ok V (str_encode V k))"

section \<open>Instances of the libraries, for concrete runs\<close>

text \<open>
  Modelled from the spec: a token codec that meets \<open>jwt_contract\<close>. A token is either
  the claims under the key and the algorithm they were signed with, or a malformed text.
\<close>

datatype signed_token = Signed claims string string | Malformed string

definition sym_jwt :: "signed_token jwt_lib" where
  "sym_jwt =
     \<lparr> jwt_encode = (\<lambda>c k a. Signed c k a),
       jwt_decode = (\<lambda>tok k' algs now.
         (case tok of
            Malformed t \<Rightarrow> Inl ''Not enough segments''
          | Signed c k a \<Rightarrow>
              if k' \<noteq> k then Inl ''Signature verification failed.''
              else if \<not> List.member algs a then Inl ''The specified alg value is not allowed''
              else (case claims_exp c of
                      None \<Rightarrow> Inr c
                    | Some e \<Rightarrow> if now < e then Inr c else Inl ''Signature has expired.''))) \<rparr>"

text \<open>
  Modelled from the spec: a codec over strings given by the table of the tokens that
  were issued (token, key, claims); it validates as section 4.1 says.
\<close>

definition table_jwt :: "(string \<times> string \<times> claims) list \<Rightarrow> string jwt_lib" where
  "table_jwt tbl =
     \<lparr> jwt_encode = (\<lambda>c k a. []),
       jwt_decode = (\<lambda>tok k' algs now.
         (case map_of tbl tok of
            None \<Rightarrow> Inl ''Not enough segments''
          | Some (k, c) \<Rightarrow>
              if k' \<noteq> k then Inl ''Signature verification failed.''
              else (case claims_exp c of
                      None \<Rightarrow> Inr c
                    | Some e \<Rightarrow> if now < e then Inr c else Inl ''Signature has expired.''))) \<rparr>"

text \<open>
  Modelled from the spec: a vault that meets \<open>vault_contract\<close>. The ciphertext is the
  plaintext behind the key and a colon; every text is its own base64 and UTF-8 form.
\<close>

definition toy_vault :: vault_lib where
  "toy_vault =
     \<lparr> generate_key = (\<lambda>n. ''key'' @ replicate n CHR ''x''),
       key_ok = (\<lambda>k. k \<noteq> []),
       fernet_encrypt = (\<lambda>k n p. k @ '':'' @ p),
       fernet_decrypt = (\<lambda>k c.
         if take (length k + 1) c = k @ '':'' then Some (drop (length k + 1) c) else None),
       b64encode = (\<lambda>b. b),
       b64decode = (\<lambda>b. Some b),
       str_encode = (\<lambda>s. s),
       bytes_decode = (\<lambda>b. Some b) \<rparr>"

text \<open>Settings, requests and rows for concrete runs.\<close>

definition cfg :: "AppMode \<Rightarrow> bool \<Rightarrow> Settings" where
  "cfg m su =
     \<lparr> app_mode = m, app_name = ''FastAPI Multi-Mode App'', debug = False,
       database_url = ''sqlite:///./app.db'', secret_key = ''s3cret'', algorithm = ''HS256'',
       access_token_expire_minutes = 30, github_client_id = Some ''cid'',
       github_client_secret = Some ''csecret'',
       github_redirect_uri = ''http://localhost:8000/auth/github/callback'',
       enable_su_auth = su, su_github_username = Some ''alice'',
       default_github_token = None, mu_admin_github_username = Some ''alice'' \<rparr>"

definition bearer :: "string \<Rightarrow> Request" where
  "bearer t = \<lparr> headers = [(''Authorization'', ''Bearer '' @ t)], cookies = [] \<rparr>"

definition row :: "int \<Rightarrow> string \<Rightarrow> bool \<Rightarrow> bool \<Rightarrow> User" where
  "row i name adm act = (new_User name None adm)\<lparr>uid := i, is_active := act\<rparr>"

section \<open>Strategy selection is a function of the mode configuration\<close>

text \<open>
  C8. The strategy chosen depends on the mode and the single-user auth flag only:
  single-user without auth gives NoAuth, single-user with auth gives the
  single-allowed-user strategy, multi-user gives the multi-user strategy, and any other
  mode value raises a ValueError (a configuration error) instead of returning a strategy.
\<close>

theorem get_auth_strategy_by_mode:
  "(app_mode s = SINGLE_USER \<and> \<not> enable_su_auth s \<longrightarrow> get_auth_strategy s = Inr NoAuthStrategy)
   \<and> (app_mode s = SINGLE_USER \<and> enable_su_auth s \<longrightarrow> get_auth_strategy s = Inr GitHubSUStrategy)
   \<and> (app_mode s = MULTI_USER \<longrightarrow> get_auth_strategy s = Inr GitHubMUStrategy)
   \<and> (app_mode s \<noteq> SINGLE_USER \<and> app_mode s \<noteq> MULTI_USER \<longrightarrow>
        (\<exists>msg. get_auth_strategy s = Inl (ValueError msg)))
   \<and> (app_mode s = app_mode s' \<and> enable_su_auth s = enable_su_auth s' \<longrightarrow>
        get_auth_strategy s = get_auth_strategy s')"
  by (simp add: get_auth_strategy_def)

theorem get_auth_strategy_by_mode_witness:
  "get_auth_strategy (cfg SINGLE_USER False) = Inr NoAuthStrategy
   \<and> get_auth_strategy (cfg SINGLE_USER True) = Inr GitHubSUStrategy
   \<and> get_auth_strategy (cfg MULTI_USER False) = Inr GitHubMUStrategy
   \<and> get_auth_strategy (cfg (UNKNOWN_MODE ''team'') False) = Inl (ValueError ''Unknown app mode: team'')
   \<and> get_auth_strategy ((cfg MULTI_USER False)\<lparr>secret_key := ''other''\<rparr>) =
       get_auth_strategy (cfg MULTI_USER False)"
  using get_auth_strategy_by_mode [of "cfg SINGLE_USER False" "cfg SINGLE_USER False"]
        get_auth_strategy_by_mode [of "cfg SINGLE_USER True" "cfg SINGLE_USER True"]
        get_auth_strategy_by_mode
          [of "(cfg MULTI_USER False)\<lparr>secret_key := ''other''\<rparr>" "cfg MULTI_USER False"]
        get_auth_strategy_by_mode [of "cfg (UNKNOWN_MODE ''team'') False" "cfg (UNKNOWN_MODE ''team'') False"]
  by (simp add: cfg_def get_auth_strategy_def)

section \<open>The NoAuth strategy\<close>

text \<open>
  C9. For every request, time and session, the NoAuth strategy returns a user (not none)
  with \<open>is_admin\<close> and \<open>is_active\<close> true, the fixed id 1 and the fixed username
  \<open>single_user\<close>; the session it returns is the session it was given, with the same
  rows and the same log of calls (no database operation). It does not require
  authentication and has no login URL.
\<close>

theorem NoAuth_virtual_admin:
  "(\<exists>u. authenticate NoAuthStrategy L s now request db = (Inr (Some u), db)
        \<and> is_admin u \<and> is_active u \<and> uid u = 1 \<and> username u = Some ''single_user'')
   \<and> NoAuth_requires_auth = False
   \<and> NoAuth_get_login_url s = None"
  by (simp add: NoAuth_authenticate_def NoAuth_requires_auth_def NoAuth_get_login_url_def)

section \<open>The multi-user strategy and deactivated accounts\<close>

text \<open>
  C3. In the multi-user strategy, when the request carries a token that the codec
  accepts, whose subject is a non-empty name that an existing row has as its GitHub
  username, and that row has \<open>is_active\<close> false, \<open>authenticate\<close> raises the
  \<open>HTTPException\<close> 403 (account deactivated): the exception leaves the method, the
  result is not "no user". The only database call is the query.
\<close>

theorem GitHubMU_deactivated_forbidden:
  assumes "extract_token request = Some token"
      and "decode_access_token L s now token = Inr payload"
      and "map_of payload ''sub'' = Some (JStr name)" and "name \<noteq> []"
      and "find (\<lambda>r. github_username r = Some name) (rows db) = Some user"
      and "\<not> is_active user"
  shows "authenticate GitHubMUStrategy L s now request db =
           (Inl (HTTPException 403 ''Account is deactivated. Contact administrator.''),
            db\<lparr>calls := calls db @ [Query]\<rparr>)"
  using assms
  by (simp add: GitHubMU_authenticate_def GitHubMU_authenticate_try_def
        query_by_github_username_def HTTP_403_FORBIDDEN_def)

theorem GitHubMU_deactivated_forbidden_witness:
  "authenticate GitHubMUStrategy
      (table_jwt [(''tok-bob'', ''s3cret'', [(''sub'', JStr ''bob''), (''exp'', JInt 2000)])])
      (cfg MULTI_USER False) 1000 (bearer ''tok-bob'')
      \<lparr>rows = [row 1 ''alice'' True True, row 2 ''bob'' False False], calls = []\<rparr> =
     (Inl (HTTPException 403 ''Account is deactivated. Contact administrator.''),
      \<lparr>rows = [row 1 ''alice'' True True, row 2 ''bob'' False False], calls = [Query]\<rparr>)"
  using GitHubMU_deactivated_forbidden
    [of "bearer ''tok-bob''" "''tok-bob''"
        "table_jwt [(''tok-bob'', ''s3cret'', [(''sub'', JStr ''bob''), (''exp'', JInt 2000)])]"
        "cfg MULTI_USER False" 1000 "[(''sub'', JStr ''bob''), (''exp'', JInt 2000)]" "''bob''"
        "\<lparr>rows = [row 1 ''alice'' True True, row 2 ''bob'' False False], calls = []\<rparr>"
        "row 2 ''bob'' False False"]
  by (simp add: bearer_def extract_token_def truthy_def decode_access_token_def table_jwt_def
        cfg_def claims_exp_def row_def new_User_def)

section \<open>The single-user strategy and the wrong subject\<close>

text \<open>
  C1. In the single-user strategy, when the request carries a token that the codec
  accepts and whose subject is not the allowed username, the body of the \<open>try\<close> block
  raises the \<open>HTTPException\<close> 403, but \<open>except Exception\<close> catches it: what
  \<open>authenticate\<close> gives its caller is "no user", the outcome of a request without a
  session, and not the 403.
\<close>

theorem GitHubSU_wrong_subject_no_user:
  assumes "extract_token request = Some token"
      and "decode_access_token L s now token = Inr payload"
      and "map_of payload ''sub'' = Some (JStr name)" and "name \<noteq> []"
      and "Some name \<noteq> su_github_username s"
  shows "GitHubSU_authenticate_try L s now token db =
           (Inl (HTTPException 403
              (''Access denied. Only '' @ opt_str (su_github_username s) @ '' is allowed.'')), db)
         \<and> authenticate GitHubSUStrategy L s now request db = (Inr None, db)"
  using assms
  by (simp add: GitHubSU_authenticate_def GitHubSU_authenticate_try_def HTTP_403_FORBIDDEN_def)

theorem GitHubSU_wrong_subject_no_user_witness:
  "GitHubSU_authenticate_try
      (table_jwt [(''tok-m'', ''s3cret'', [(''sub'', JStr ''mallory''), (''exp'', JInt 2000)])])
      (cfg SINGLE_USER True) 1000 ''tok-m'' \<lparr>rows = [], calls = []\<rparr> =
     (Inl (HTTPException 403 ''Access denied. Only alice is allowed.''), \<lparr>rows = [], calls = []\<rparr>)
   \<and> authenticate GitHubSUStrategy
      (table_jwt [(''tok-m'', ''s3cret'', [(''sub'', JStr ''mallory''), (''exp'', JInt 2000)])])
      (cfg SINGLE_USER True) 1000 (bearer ''tok-m'') \<lparr>rows = [], calls = []\<rparr> =
     (Inr None, \<lparr>rows = [], calls = []\<rparr>)"
  using GitHubSU_wrong_subject_no_user
    [of "bearer ''tok-m''" "''tok-m''"
        "table_jwt [(''tok-m'', ''s3cret'', [(''sub'', JStr ''mallory''), (''exp'', JInt 2000)])]"
        "cfg SINGLE_USER True" 1000 "[(''sub'', JStr ''mallory''), (''exp'', JInt 2000)]" "''mallory''"
        "\<lparr>rows = [], calls = []\<rparr>"]
  by (simp add: bearer_def extract_token_def truthy_def decode_access_token_def table_jwt_def
        cfg_def claims_exp_def opt_str_def)

section \<open>Administrators and their own account\<close>

text \<open>
  C10. When the target user id is the id of the authenticated administrator, both
  \<open>deactivate_user\<close> and \<open>remove_admin\<close> raise the \<open>HTTPException\<close> 400 and return
  the session as it was: no row is changed and no database call is made.
\<close>

theorem self_target_rejected:
  assumes "uid current_user = user_id"
  shows "deactivate_user now user_id current_user db =
           (Inl (HTTPException 400 ''Cannot deactivate your own account''), db)
         \<and> remove_admin now user_id current_user db =
           (Inl (HTTPException 400 ''Cannot remove admin privileges from your own account''), db)"
  using assms by (simp add: deactivate_user_def remove_admin_def HTTP_400_BAD_REQUEST_def)

theorem self_target_rejected_witness:
  "uid (row 1 ''alice'' True True) = 1
   \<and> deactivate_user 50 1 (row 1 ''alice'' True True)
        \<lparr>rows = [row 1 ''alice'' True True, row 2 ''bob'' False True], calls = []\<rparr> =
       (Inl (HTTPException 400 ''Cannot deactivate your own account''),
        \<lparr>rows = [row 1 ''alice'' True True, row 2 ''bob'' False True], calls = []\<rparr>)
   \<and> remove_admin 50 1 (row 1 ''alice'' True True)
        \<lparr>rows = [row 1 ''alice'' True True, row 2 ''bob'' False True], calls = []\<rparr> =
       (Inl (HTTPException 400 ''Cannot remove admin privileges from your own account''),
        \<lparr>rows = [row 1 ''alice'' True True, row 2 ''bob'' False True], calls = []\<rparr>)"
  using self_target_rejected [of "row 1 ''alice'' True True" 1 50
          "\<lparr>rows = [row 1 ''alice'' True True, row 2 ''bob'' False True], calls = []\<rparr>"]
  by (simp add: row_def)

section \<open>Token codec: issue and validate\<close>

lemma claims_exp_update: "claims_exp (AList.update ''exp'' (JInt e) data) = Some e"
  by (simp add: claims_exp_def update_conv')

lemma sym_jwt_contract: "jwt_contract sym_jwt"
  by (auto simp: jwt_contract_def sym_jwt_def jwt_valid_def split: signed_token.splits option.splits)

lemma decode_issued:
  assumes "jwt_contract L"
  shows "decode_access_token L s' t (jwt_encode L c (secret_key s) (algorithm s)) =
           (if jwt_valid (secret_key s) (algorithm s) (secret_key s') [algorithm s'] c t
            then Inr c else Inl (ValueError ''Invalid token''))"
proof (cases "jwt_valid (secret_key s) (algorithm s) (secret_key s') [algorithm s'] c t")
  case True
  with assms have "jwt_decode L (jwt_encode L c (secret_key s) (algorithm s))
                     (secret_key s') [algorithm s'] t = Inr c"
    unfolding jwt_contract_def by blast
  with True show ?thesis by (simp add: decode_access_token_def)
next
  case False
  with assms have "isl (jwt_decode L (jwt_encode L c (secret_key s) (algorithm s))
                     (secret_key s') [algorithm s'] t)"
    unfolding jwt_contract_def by blast
  with False show ?thesis by (auto simp: decode_access_token_def isl_def)
qed

lemma decode_malformed:
  assumes "jwt_contract L" and "\<forall>c k a. bad \<noteq> jwt_encode L c k a"
  shows "decode_access_token L s t bad = Inl (ValueError ''Invalid token'')"
proof -
  from assms have "isl (jwt_decode L bad (secret_key s) [algorithm s] t)"
    unfolding jwt_contract_def by blast
  then show ?thesis by (auto simp: decode_access_token_def isl_def)
qed

text \<open>
  C4, as the code has it. For a signing library that meets its contract, for every claims
  dictionary and every lifetime that is not zero (or no lifetime given, which means the
  configured default): a token made by \<open>create_access_token\<close> at time \<open>now\<close> decodes,
  at every time before \<open>now\<close> plus the lifetime, to the input claims with the key
  \<open>exp\<close> set to that expiry and nothing else changed; at or after the expiry, under
  another signing key, or for a token that no \<open>jwt.encode\<close> produced,
  \<open>decode_access_token\<close> raises \<open>ValueError("Invalid token")\<close>.
\<close>

theorem token_round_trip:
  assumes "jwt_contract L" and "expires_delta \<noteq> Some 0"
  shows "let token = create_access_token L s now data expires_delta;
             exp = now + (case expires_delta of Some d \<Rightarrow> d
                          | None \<Rightarrow> 60 * access_token_expire_minutes s)
         in (t < exp \<longrightarrow>
               decode_access_token L s t token = Inr (AList.update ''exp'' (JInt exp) data))
          \<and> (exp \<le> t \<longrightarrow> decode_access_token L s t token = Inl (ValueError ''Invalid token''))
          \<and> (secret_key s' \<noteq> secret_key s \<longrightarrow>
               decode_access_token L s' t token = Inl (ValueError ''Invalid token''))
          \<and> ((\<forall>c k a. bad \<noteq> jwt_encode L c k a) \<longrightarrow>
               decode_access_token L s t bad = Inl (ValueError ''Invalid token''))"
proof -
  have e: "expire_at s now expires_delta =
             now + (case expires_delta of Some d \<Rightarrow> d | None \<Rightarrow> 60 * access_token_expire_minutes s)"
    using assms(2) by (simp add: expire_at_def timedelta_minutes_def split: option.splits)
  show ?thesis
    using decode_malformed [OF assms(1), of bad s t]
    by (simp add: Let_def create_access_token_def e decode_issued [OF assms(1)] jwt_valid_def
          claims_exp_update)
qed

theorem token_round_trip_witness:
  "decode_access_token sym_jwt (cfg MULTI_USER False) 1010
      (create_access_token sym_jwt (cfg MULTI_USER False) 1000 [(''sub'', JStr ''alice'')] (Some 60)) =
     Inr [(''sub'', JStr ''alice''), (''exp'', JInt 1060)]
   \<and> decode_access_token sym_jwt (cfg MULTI_USER False) 1060
      (create_access_token sym_jwt (cfg MULTI_USER False) 1000 [(''sub'', JStr ''alice'')] (Some 60)) =
     Inl (ValueError ''Invalid token'')
   \<and> decode_access_token sym_jwt ((cfg MULTI_USER False)\<lparr>secret_key := ''other''\<rparr>) 1010
      (create_access_token sym_jwt (cfg MULTI_USER False) 1000 [(''sub'', JStr ''alice'')] (Some 60)) =
     Inl (ValueError ''Invalid token'')
   \<and> decode_access_token sym_jwt (cfg MULTI_USER False) 1010 (Malformed ''abc'') =
     Inl (ValueError ''Invalid token'')"
  using token_round_trip [OF sym_jwt_contract, of "Some 60" "cfg MULTI_USER False" 1000
          "[(''sub'', JStr ''alice'')]" 1010 "(cfg MULTI_USER False)\<lparr>secret_key := ''other''\<rparr>"
          "Malformed ''abc''"]
        token_round_trip [OF sym_jwt_contract, of "Some 60" "cfg MULTI_USER False" 1000
          "[(''sub'', JStr ''alice'')]" 1060 "(cfg MULTI_USER False)\<lparr>secret_key := ''other''\<rparr>"
          "Malformed ''abc''"]
  by (simp add: Let_def cfg_def sym_jwt_def create_access_token_def expire_at_def)

text \<open>
  C4 as stated fails for the lifetime zero: \<open>timedelta(0)\<close> is false in
  \<open>if expires_delta:\<close>, the token gets the default lifetime of 30 minutes, and it is
  accepted at the instant it was issued, which is its expiry by the lifetime given.
\<close>

theorem zero_ttl_token_accepted:
  "decode_access_token sym_jwt (cfg MULTI_USER False) 1000
      (create_access_token sym_jwt (cfg MULTI_USER False) 1000 [(''sub'', JStr ''alice'')] (Some 0)) =
     Inr [(''sub'', JStr ''alice''), (''exp'', JInt 2800)]"
  by (simp add: cfg_def sym_jwt_def create_access_token_def expire_at_def timedelta_minutes_def
        decode_access_token_def claims_exp_def)

section \<open>The claims of a session token\<close>

text \<open>
  C7, as the code has it. The session token made after an OAuth callback encodes exactly
  seven claims, in this order: \<open>sub\<close> (the GitHub login), \<open>github_id\<close>, \<open>email\<close>,
  \<open>avatar_url\<close>, \<open>github_token\<close> (the GitHub access token itself), \<open>type\<close>
  (\<open>github_oauth\<close>) and \<open>exp\<close> (issue time plus the configured lifetime). There is no
  issued-at claim.
\<close>

theorem oauth_token_claims:
  assumes "map_of github_user_data ''login'' = Some subj"
      and "map_of github_user_data ''id'' = Some gid"
  shows "create_github_oauth_token L s now github_user_data access_token =
           Inr (jwt_encode L
                  [(''sub'', subj),
                   (''github_id'', gid),
                   (''email'', dict_get github_user_data ''email''),
                   (''avatar_url'', dict_get github_user_data ''avatar_url''),
                   (''github_token'', JStr access_token),
                   (''type'', JStr ''github_oauth''),
                   (''exp'', JInt (now + 60 * access_token_expire_minutes s))]
                  (secret_key s) (algorithm s))"
  using assms
  by (simp add: create_github_oauth_token_def create_access_token_def expire_at_def
        timedelta_minutes_def)

theorem oauth_token_claims_witness:
  "create_github_oauth_token sym_jwt (cfg MULTI_USER False) 1000
      [(''id'', JInt 7), (''login'', JStr ''alice''), (''email'', JStr ''a@x.org''),
       (''avatar_url'', JNull)] ''gho_secret'' =
     Inr (Signed [(''sub'', JStr ''alice''), (''github_id'', JInt 7), (''email'', JStr ''a@x.org''),
                  (''avatar_url'', JNull), (''github_token'', JStr ''gho_secret''),
                  (''type'', JStr ''github_oauth''), (''exp'', JInt 2800)] ''s3cret'' ''HS256'')"
  using oauth_token_claims [of "[(''id'', JInt 7), (''login'', JStr ''alice''),
          (''email'', JStr ''a@x.org''), (''avatar_url'', JNull)]" "JStr ''alice''" "JInt 7"
          sym_jwt "cfg MULTI_USER False" 1000 "''gho_secret''"]
  by (simp add: cfg_def sym_jwt_def dict_get_def)

text \<open>
  C7 as stated fails: the token of this callback carries the e-mail address, the avatar
  URL and the GitHub access token, and no \<open>iat\<close>.
\<close>

theorem oauth_token_carries_access_token:
  "create_github_oauth_token sym_jwt (cfg SINGLE_USER True) 500
      [(''id'', JInt 42), (''login'', JStr ''bob''), (''email'', JStr ''bob@example.org''),
       (''avatar_url'', JStr ''https://avatars.example.org/42'')] ''gho_16C7e42F292c6912E7'' =
     Inr (Signed [(''sub'', JStr ''bob''), (''github_id'', JInt 42),
                  (''email'', JStr ''bob@example.org''),
                  (''avatar_url'', JStr ''https://avatars.example.org/42''),
                  (''github_token'', JStr ''gho_16C7e42F292c6912E7''),
                  (''type'', JStr ''github_oauth''), (''exp'', JInt 2300)] ''s3cret'' ''HS256'')"
  by (simp add: create_github_oauth_token_def create_access_token_def expire_at_def
        timedelta_minutes_def cfg_def sym_jwt_def dict_get_def)

section \<open>Credential vault: seal and open\<close>

lemma toy_vault_contract: "vault_contract toy_vault"
  by (simp add: vault_contract_def toy_vault_def)

lemma get_encryption_key_stable:
  assumes "vault_contract V" and "stable_key V env"
  obtains k env1 where "get_encryption_key V rnd env = (str_encode V k, env1)"
    and "key_ok V (str_encode V k)" and "env1 ''ENCRYPTION_KEY'' = Some k" and "k \<noteq> []"
proof (cases "truthy (env ''ENCRYPTION_KEY'')")
  case True
  then obtain k where k: "env ''ENCRYPTION_KEY'' = Some k" "k \<noteq> []"
    by (auto simp: truthy_def split: option.splits)
  with assms(2) have "key_ok V (str_encode V k)" by (simp add: stable_key_def)
  moreover from k have "get_encryption_key V rnd env = (str_encode V k, env)"
    by (simp add: get_encryption_key_def truthy_def)
  ultimately show ?thesis using k that by blast
next
  case False
  let ?g = "generate_key V rnd"
  from assms(1) have "?g \<noteq> []" "key_ok V (str_encode V ?g)"
    by (simp_all add: vault_contract_def)
  moreover from False
  have "get_encryption_key V rnd env = (str_encode V ?g, env(''ENCRYPTION_KEY'' \<mapsto> ?g))"
    by (simp add: get_encryption_key_def Let_def)
  ultimately show ?thesis using that [of ?g "env(''ENCRYPTION_KEY'' \<mapsto> ?g)"] by simp
qed

lemma get_encryption_key_set:
  assumes "env ''ENCRYPTION_KEY'' = Some k" and "k \<noteq> []"
  shows "get_encryption_key V rnd env = (str_encode V k, env)"
  using assms by (simp add: get_encryption_key_def truthy_def)

lemma seal_then_open:
  assumes V: "vault_contract V" and st: "stable_key V env" and x: "x \<noteq> []"
  shows "\<exists>c env1. encrypt_token V rnd x env = (Inr c, env1)
           \<and> decrypt_token V rnd' c env1 = (Inr x, env1)"
proof -
  obtain k env1 where k: "get_encryption_key V rnd env = (str_encode V k, env1)"
    "key_ok V (str_encode V k)" "env1 ''ENCRYPTION_KEY'' = Some k" "k \<noteq> []"
    using get_encryption_key_stable [OF V st] by blast
  let ?E = "fernet_encrypt V (str_encode V k) rnd (str_encode V x)"
  from V have "bytes_decode V (b64encode V ?E) \<noteq> None"
    unfolding vault_contract_def by blast
  then obtain c where c: "bytes_decode V (b64encode V ?E) = Some c" by auto
  with V have enc: "str_encode V c = b64encode V ?E"
    unfolding vault_contract_def by blast
  from V have ne: "b64encode V ?E \<noteq> []" unfolding vault_contract_def by blast
  have "c \<noteq> []"
  proof
    assume "c = []"
    with enc V have "b64encode V ?E = []" by (simp add: vault_contract_def)
    with ne show False by simp
  qed
  have b: "b64decode V (b64encode V ?E) = Some ?E"
    using V unfolding vault_contract_def by blast
  have f: "fernet_decrypt V (str_encode V k) ?E = Some (str_encode V x)"
    using V k(2) unfolding vault_contract_def by blast
  have d: "bytes_decode V (str_encode V x) = Some x"
    using V unfolding vault_contract_def by blast
  have 1: "encrypt_token V rnd x env = (Inr c, env1)"
    using x k c by (simp add: encrypt_token_def)
  have 2: "decrypt_token V rnd' c env1 = (Inr x, env1)"
    using \<open>c \<noteq> []\<close> get_encryption_key_set [of env1 k V rnd', OF k(3) k(4)] k(2) enc b f d
    by (simp add: decrypt_token_def decrypt_token_try_def)
  from 1 2 show ?thesis by blast
qed

lemma decrypt_token_total: "\<exists>p env1. decrypt_token V rnd g env = (Inr p, env1)"
  by (auto simp: decrypt_token_def split: prod.splits sum.splits)

lemma decrypt_token_failure:
  assumes "isl (fst (decrypt_token_try V rnd g env))"
  shows "fst (decrypt_token V rnd g env) = Inr []"
  using assms by (auto simp: decrypt_token_def split: prod.splits sum.splits)

text \<open>
  C5. For libraries that meet their contract and a stable key: for every non-empty \<open>x\<close>,
  \<open>encrypt_token\<close> returns a ciphertext and \<open>decrypt_token\<close> of that ciphertext, under
  the environment the encryption left, is \<open>x\<close>; \<open>decrypt_token("")\<close> is \<open>""\<close>; and for
  every input \<open>decrypt_token\<close> returns a string and raises nothing, the string being
  \<open>""\<close> whenever the input is not a valid ciphertext (a step of the \<open>try\<close> block
  fails: the key, the base64 text, the Fernet token or the UTF-8 text).
\<close>

theorem vault_round_trip:
  assumes "vault_contract V" and "stable_key V env" and "x \<noteq> []"
  shows "(\<exists>c env1. encrypt_token V rnd x env = (Inr c, env1)
            \<and> decrypt_token V rnd' c env1 = (Inr x, env1))
         \<and> decrypt_token V rnd [] env = (Inr [], env)
         \<and> (\<exists>p env1. decrypt_token V rnd g env = (Inr p, env1))
         \<and> (isl (fst (decrypt_token_try V rnd g env)) \<longrightarrow>
              fst (decrypt_token V rnd g env) = Inr [])"
  using seal_then_open [OF assms] decrypt_token_total [of V rnd g env]
    decrypt_token_failure [of V rnd g env]
  by (simp add: decrypt_token_def)

theorem vault_round_trip_witness:
  "fst (encrypt_token toy_vault 0 ''ghp_abc'' [''ENCRYPTION_KEY'' \<mapsto> ''k1'']) = Inr ''k1:ghp_abc''
   \<and> fst (decrypt_token toy_vault 0 ''k1:ghp_abc'' [''ENCRYPTION_KEY'' \<mapsto> ''k1'']) = Inr ''ghp_abc''
   \<and> fst (decrypt_token toy_vault 0 [] [''ENCRYPTION_KEY'' \<mapsto> ''k1'']) = Inr []
   \<and> isl (fst (decrypt_token_try toy_vault 0 ''garbage'' [''ENCRYPTION_KEY'' \<mapsto> ''k1'']))
   \<and> fst (decrypt_token toy_vault 0 ''garbage'' [''ENCRYPTION_KEY'' \<mapsto> ''k1'']) = Inr []"
  using vault_round_trip [OF toy_vault_contract, of "[''ENCRYPTION_KEY'' \<mapsto> ''k1'']"
          "''ghp_abc''" 0 0 "''garbage''"]
  by (simp add: stable_key_def toy_vault_def encrypt_token_def decrypt_token_def
        decrypt_token_try_def get_encryption_key_def truthy_def)

section \<open>The order of the credential resolver\<close>

text \<open>
  C2, as the code has it. The resolver returns the first match of: (1) the default token,
  when the mode is single-user, auth is disabled and a non-empty default token is
  configured; (2) else, when there is an authenticated user with a non-empty stored
  token, the result of \<open>decrypt_token\<close> on it, returned as it is: also when it is the
  empty string of a failed decryption, and the header is not looked at then; (3) else the
  non-empty value of the header \<open>X-GitHub-Token\<close>; (4) else none.
\<close>

theorem get_github_token_order:
  "(app_mode s = SINGLE_USER \<and> \<not> enable_su_auth s \<and> truthy (default_github_token s) \<longrightarrow>
      get_github_token V rnd s request current_user env = (Inr (default_github_token s), env))
   \<and> (\<not> (app_mode s = SINGLE_USER \<and> \<not> enable_su_auth s \<and> truthy (default_github_token s))
        \<and> current_user = Some u \<and> github_token u = Some t \<and> t \<noteq> [] \<longrightarrow>
      (\<exists>p env1. decrypt_token V rnd t env = (Inr p, env1)
         \<and> get_github_token V rnd s request current_user env = (Inr (Some p), env1)
         \<and> (isl (fst (decrypt_token_try V rnd t env)) \<longrightarrow> p = [])))
   \<and> (\<not> (app_mode s = SINGLE_USER \<and> \<not> enable_su_auth s \<and> truthy (default_github_token s))
        \<and> \<not> truthy (stored_token current_user)
        \<and> truthy (map_of (headers request) ''X-GitHub-Token'') \<longrightarrow>
      get_github_token V rnd s request current_user env =
        (Inr (map_of (headers request) ''X-GitHub-Token''), env))
   \<and> (\<not> (app_mode s = SINGLE_USER \<and> \<not> enable_su_auth s \<and> truthy (default_github_token s))
        \<and> \<not> truthy (stored_token current_user)
        \<and> \<not> truthy (map_of (headers request) ''X-GitHub-Token'') \<longrightarrow>
      get_github_token V rnd s request current_user env = (Inr None, env))"
proof -
  have "\<exists>p env1. decrypt_token V rnd t env = (Inr p, env1)
          \<and> (isl (fst (decrypt_token_try V rnd t env)) \<longrightarrow> p = [])"
    using decrypt_token_total [of V rnd t env] decrypt_token_failure [of V rnd t env]
    by auto
  then obtain p env1 where "decrypt_token V rnd t env = (Inr p, env1)"
    "isl (fst (decrypt_token_try V rnd t env)) \<longrightarrow> p = []" by blast
  then show ?thesis
    by (auto simp: get_github_token_def stored_token_def truthy_def opt_str_def Let_def)
qed

theorem get_github_token_order_witness:
  "get_github_token toy_vault 0 ((cfg SINGLE_USER False)\<lparr>default_github_token := Some ''tok-A''\<rparr>)
      \<lparr>headers = [(''X-GitHub-Token'', ''tok-H'')], cookies = []\<rparr>
      (Some ((row 2 ''bob'' False True)\<lparr>github_token := Some ''k1:tok-U''\<rparr>))
      [''ENCRYPTION_KEY'' \<mapsto> ''k1''] =
     (Inr (Some ''tok-A''), [''ENCRYPTION_KEY'' \<mapsto> ''k1''])
   \<and> get_github_token toy_vault 0 ((cfg MULTI_USER False)\<lparr>default_github_token := Some ''tok-A''\<rparr>)
      \<lparr>headers = [(''X-GitHub-Token'', ''tok-H'')], cookies = []\<rparr>
      (Some ((row 2 ''bob'' False True)\<lparr>github_token := Some ''k1:tok-U''\<rparr>))
      [''ENCRYPTION_KEY'' \<mapsto> ''k1''] =
     (Inr (Some ''tok-U''), [''ENCRYPTION_KEY'' \<mapsto> ''k1''])
   \<and> get_github_token toy_vault 0 ((cfg MULTI_USER False)\<lparr>default_github_token := Some ''tok-A''\<rparr>)
      \<lparr>headers = [(''X-GitHub-Token'', ''tok-H'')], cookies = []\<rparr>
      (Some (row 2 ''bob'' False True)) [''ENCRYPTION_KEY'' \<mapsto> ''k1''] =
     (Inr (Some ''tok-H''), [''ENCRYPTION_KEY'' \<mapsto> ''k1''])
   \<and> get_github_token toy_vault 0 ((cfg MULTI_USER False)\<lparr>default_github_token := Some ''tok-A''\<rparr>)
      \<lparr>headers = [], cookies = []\<rparr> None [''ENCRYPTION_KEY'' \<mapsto> ''k1''] =
     (Inr None, [''ENCRYPTION_KEY'' \<mapsto> ''k1''])"
  using get_github_token_order [of "(cfg SINGLE_USER False)\<lparr>default_github_token := Some ''tok-A''\<rparr>"
          toy_vault 0 "\<lparr>headers = [(''X-GitHub-Token'', ''tok-H'')], cookies = []\<rparr>"
          "Some ((row 2 ''bob'' False True)\<lparr>github_token := Some ''k1:tok-U''\<rparr>)"
          "[''ENCRYPTION_KEY'' \<mapsto> ''k1'']"
          "(row 2 ''bob'' False True)\<lparr>github_token := Some ''k1:tok-U''\<rparr>" "''k1:tok-U''"]
        get_github_token_order [of "(cfg MULTI_USER False)\<lparr>default_github_token := Some ''tok-A''\<rparr>"
          toy_vault 0 "\<lparr>headers = [(''X-GitHub-Token'', ''tok-H'')], cookies = []\<rparr>"
          "Some ((row 2 ''bob'' False True)\<lparr>github_token := Some ''k1:tok-U''\<rparr>)"
          "[''ENCRYPTION_KEY'' \<mapsto> ''k1'']"
          "(row 2 ''bob'' False True)\<lparr>github_token := Some ''k1:tok-U''\<rparr>" "''k1:tok-U''"]
        get_github_token_order [of "(cfg MULTI_USER False)\<lparr>default_github_token := Some ''tok-A''\<rparr>"
          toy_vault 0 "\<lparr>headers = [(''X-GitHub-Token'', ''tok-H'')], cookies = []\<rparr>"
          "Some (row 2 ''bob'' False True)" "[''ENCRYPTION_KEY'' \<mapsto> ''k1'']"
          "row 2 ''bob'' False True" "[]"]
        get_github_token_order [of "(cfg MULTI_USER False)\<lparr>default_github_token := Some ''tok-A''\<rparr>"
          toy_vault 0 "\<lparr>headers = [], cookies = []\<rparr>" None "[''ENCRYPTION_KEY'' \<mapsto> ''k1'']"
          "row 2 ''bob'' False True" "[]"]
  by (simp add: get_github_token_def stored_token_def truthy_def opt_str_def cfg_def row_def
        new_User_def toy_vault_def decrypt_token_def decrypt_token_try_def
        get_encryption_key_def)

text \<open>
  C2 as stated fails: with a stored token that does not decrypt and the header present,
  the resolver returns the empty string and not the header's value.
\<close>

theorem undecryptable_token_hides_header:
  "get_github_token toy_vault 0 (cfg MULTI_USER False)
      \<lparr>headers = [(''X-GitHub-Token'', ''tok-H'')], cookies = []\<rparr>
      (Some ((row 2 ''bob'' False True)\<lparr>github_token := Some ''garbage''\<rparr>))
      [''ENCRYPTION_KEY'' \<mapsto> ''k1''] =
     (Inr (Some []), [''ENCRYPTION_KEY'' \<mapsto> ''k1''])"
  by (simp add: get_github_token_def stored_token_def truthy_def opt_str_def cfg_def row_def
        new_User_def toy_vault_def decrypt_token_def decrypt_token_try_def
        get_encryption_key_def)

section \<open>OAuth credentials and the start of the application\<close>

lemma run_validator_error:
  "run_validator vd v data = Inl e \<Longrightarrow> \<exists>msg. e = ValueError msg"
  by (cases vd)
     (auto simp: validate_github_oauth_def validate_su_username_def validate_mu_admin_def
        Let_def split: if_splits)

lemma validate_github_oauth_raises:
  assumes "map_of data ''app_mode'' = Some (CMode MULTI_USER)
           \<or> (\<exists>e. map_of data ''enable_su_auth'' = Some e \<and> ctruthy e)"
      and "\<not> ctruthy v"
  shows "\<exists>msg. validate_github_oauth v data = Inl (ValueError msg)"
proof -
  from assms(1) have "data \<noteq> []" by auto
  with assms show ?thesis
    by (auto simp: validate_github_oauth_def data_get_def Let_def)
qed

lemma map_of_snoc: "map_of data k = Some x \<Longrightarrow> map_of (data @ [(n, y)]) k = Some x"
  by (simp add: map_add_Some_iff)

text \<open>
  Once the fields validated so far say multi-user mode, an OAuth field further on whose
  value is empty or absent stops the construction: induction on the fields to come.
\<close>

lemma validate_fields_raises:
  assumes "(name, dflt, Github_oauth) \<in> set fs"
      and "\<not> ctruthy (data_get given name dflt)"
      and "map_of data ''app_mode'' = Some (CMode MULTI_USER)"
  shows "\<exists>msg. validate_fields fs given data = Inl (ValueError msg)"
  using assms
proof (induction fs arbitrary: data)
  case Nil
  then show ?case by simp
next
  case (Cons f fs)
  obtain n d vd where f: "f = (n, d, vd)" by (cases f)
  show ?case
  proof (cases "run_validator vd (data_get given n d) data")
    case (Inl e)
    with run_validator_error [OF Inl] f show ?thesis by auto
  next
    case (Inr w)
    have "(name, dflt, Github_oauth) \<in> set fs"
    proof (rule ccontr)
      assume "(name, dflt, Github_oauth) \<notin> set fs"
      with Cons.prems(1) f have "n = name" "d = dflt" "vd = Github_oauth" by auto
      with validate_github_oauth_raises [of data "data_get given name dflt"]
        Cons.prems(2,3) Inr
      show False by auto
    qed
    from Cons.IH [OF this Cons.prems(2) map_of_snoc [OF Cons.prems(3)]]
    show ?thesis using Inr f by simp
  qed
qed

lemma Settings_init_multi_user_without_oauth:
  assumes "map_of given ''app_mode'' = Some (CMode MULTI_USER)"
      and "\<not> ctruthy (data_get given ''github_client_id'' CNone)
           \<or> \<not> ctruthy (data_get given ''github_client_secret'' CNone)"
  shows "\<exists>msg. Settings_init given = Inl (ValueError msg)"
proof -
  let ?fs = "tl Settings_fields"
  let ?d = "[(''app_mode'', CMode MULTI_USER)]"
  have start: "validate_fields Settings_fields given [] = validate_fields ?fs given ?d"
    using assms(1) by (simp add: Settings_fields_def data_get_def)
  have d: "map_of ?d ''app_mode'' = Some (CMode MULTI_USER)" by simp
  have "\<exists>msg. validate_fields ?fs given ?d = Inl (ValueError msg)"
  proof (rule disjE [OF assms(2)])
    assume a: "\<not> ctruthy (data_get given ''github_client_id'' CNone)"
    have "(''github_client_id'', CNone, Github_oauth) \<in> set ?fs"
      by (simp add: Settings_fields_def)
    from validate_fields_raises [OF this a d] show ?thesis .
  next
    assume a: "\<not> ctruthy (data_get given ''github_client_secret'' CNone)"
    have "(''github_client_secret'', CNone, Github_oauth) \<in> set ?fs"
      by (simp add: Settings_fields_def)
    from validate_fields_raises [OF this a d] show ?thesis .
  qed
  with start show ?thesis by (auto simp: Settings_init_def)
qed

text \<open>
  C6, as the code has it. Whenever the environment sets multi-user mode and the GitHub
  OAuth client id or client secret is absent (not given, or given empty), constructing
  the settings fails at startup with a configuration error: the validator of the two
  fields raises a \<open>ValueError\<close> for an absent value when the fields validated before
  it say multi-user mode (or hold a true \<open>enable_su_auth\<close>). And there is a
  request-time path that reports the absence: when authentication is required and the
  client id is absent, the login endpoint answers 500 "GitHub OAuth not configured".
\<close>

theorem oauth_settings_checks:
  "((map_of data ''app_mode'' = Some (CMode MULTI_USER)
       \<or> (\<exists>e. map_of data ''enable_su_auth'' = Some e \<and> ctruthy e)) \<and> \<not> ctruthy v \<longrightarrow>
      (\<exists>msg. validate_github_oauth v data = Inl (ValueError msg)))
   \<and> (map_of given ''app_mode'' = Some (CMode MULTI_USER)
        \<and> (\<not> ctruthy (data_get given ''github_client_id'' CNone)
           \<or> \<not> ctruthy (data_get given ''github_client_secret'' CNone)) \<longrightarrow>
      (\<exists>msg. Settings_init given = Inl (ValueError msg)))
   \<and> (requires_auth s \<and> \<not> truthy (github_client_id s) \<longrightarrow>
      login s = Inl (HTTPException 500 ''GitHub OAuth not configured''))"
  using validate_github_oauth_raises [of data v]
    Settings_init_multi_user_without_oauth [of given]
  by (simp add: login_def HTTP_500_INTERNAL_SERVER_ERROR_def)

theorem oauth_settings_checks_witness:
  "validate_github_oauth CNone [(''app_mode'', CMode MULTI_USER)] =
     Inl (ValueError
       ''GitHub OAuth credentials required for mode: AppMode.MULTI_USER or when SU auth is enabled'')
   \<and> Settings_init [(''app_mode'', CMode MULTI_USER),
                    (''mu_admin_github_username'', CStr ''alice'')] =
     Inl (ValueError
       ''GitHub OAuth credentials required for mode: AppMode.MULTI_USER or when SU auth is enabled'')
   \<and> Settings_init [(''app_mode'', CMode MULTI_USER), (''github_client_id'', CStr ''cid''),
                    (''github_client_secret'', CStr []),
                    (''mu_admin_github_username'', CStr ''alice'')] =
     Inl (ValueError
       ''GitHub OAuth credentials required for mode: AppMode.MULTI_USER or when SU auth is enabled'')
   \<and> login ((cfg MULTI_USER False)\<lparr>github_client_id := None\<rparr>) =
     Inl (HTTPException 500 ''GitHub OAuth not configured'')"
  using oauth_settings_checks [of "[(''app_mode'', CMode MULTI_USER)]" CNone
          "[(''app_mode'', CMode MULTI_USER), (''mu_admin_github_username'', CStr ''alice'')]"
          "(cfg MULTI_USER False)\<lparr>github_client_id := None\<rparr>"]
        oauth_settings_checks [of "[(''app_mode'', CMode MULTI_USER)]" CNone
          "[(''app_mode'', CMode MULTI_USER), (''github_client_id'', CStr ''cid''),
            (''github_client_secret'', CStr []), (''mu_admin_github_username'', CStr ''alice'')]"
          "(cfg MULTI_USER False)\<lparr>github_client_id := None\<rparr>"]
  by (simp add: validate_github_oauth_def data_get_def Settings_init_def Settings_fields_def
        cfg_def requires_auth_def truthy_def login_def HTTP_500_INTERNAL_SERVER_ERROR_def)

text \<open>
  C6 as stated fails: single-user mode with auth enabled and no OAuth client id or
  secret. \<open>enable_su_auth\<close> is declared after the two OAuth fields, so it is not among
  the fields their validator sees, and the validator passes the absent values; the
  settings are constructed, they require authentication, and the absence shows at
  request time, in the login endpoint.
\<close>

theorem single_user_auth_without_oauth_starts:
  "Settings_init [(''app_mode'', CMode SINGLE_USER), (''secret_key'', CStr ''s3cret''),
                  (''enable_su_auth'', CBool True), (''su_github_username'', CStr ''alice'')] =
     Inr ((cfg SINGLE_USER True)\<lparr>github_client_id := None, github_client_secret := None,
            mu_admin_github_username := None\<rparr>)
   \<and> requires_auth ((cfg SINGLE_USER True)\<lparr>github_client_id := None,
        github_client_secret := None, mu_admin_github_username := None\<rparr>)
   \<and> login ((cfg SINGLE_USER True)\<lparr>github_client_id := None, github_client_secret := None,
        mu_admin_github_username := None\<rparr>) =
     Inl (HTTPException 500 ''GitHub OAuth not configured'')"
  by (simp add: Settings_init_def Settings_fields_def Settings_of_def data_get_def cstr_def
        cstr_opt_def cbool_def validate_github_oauth_def validate_su_username_def
        validate_mu_admin_def cfg_def requires_auth_def login_def truthy_def
        HTTP_500_INTERNAL_SERVER_ERROR_def)

end
